theory Spec2Isabelle
  imports
    Complex_Main
    "HOL-Library.Char_ord"
    "HOL-Library.List_Lexorder"
    "HOL-Library.Product_Lexorder"
    "HOL-Library.Multiset"
    "HOL-Library.Sublist"
begin

section \<open>Fishery catch dashboard (streamlit\_app.py)\<close>

text \<open>
  The script generates a table of synthetic catch records, narrows it to a date interval and
  a list of selected sites with a boolean mask, and shows metrics and grouped sums of the
  narrowed table, or a preview of the whole table when nothing is left.

  Conventions of the embedding.
  \<^item> A \<^verbatim>\<open>datetime.date\<close> is its proleptic Gregorian ordinal (\<^verbatim>\<open>date.toordinal()\<close>), an
    \<open>int\<close>; adding \<^verbatim>\<open>timedelta(days=k)\<close> is adding \<open>k\<close>, and dates compare as their ordinals do.
  \<^item> A pandas DataFrame is the list of its rows in positional order; a column is the list of
    one field. The index labels are not modelled (\<^verbatim>\<open>reset_index\<close> leaves the rows as they are).
  \<^item> \<^verbatim>\<open>Catch_Weight_kg\<close> is a \<open>rat\<close>: every float64 the script can hold is a rational number,
    and sums, means and the rounding to two decimals are computed exactly. The rounding error
    of float64 arithmetic is not modelled.
  \<^item> Strings are \<open>char list\<close> with the lexicographic order on character codes, as Python
    orders \<^verbatim>\<open>str\<close> (the vocabularies of the script are ASCII).
  \<^item> The random source of numpy is an explicit argument (\<open>rng\<close>) that gives the outcome of each
    draw; what numpy promises of a draw is the predicate \<open>rng_ok\<close>.
  \<^item> The two widgets of the sidebar are arguments of \<open>page\<close>: the tuple returned by
    \<^verbatim>\<open>st.sidebar.date_input\<close> (a list of dates) and the list returned by
    \<^verbatim>\<open>st.sidebar.multiselect\<close>.
\<close>

subsection \<open>Data model\<close>

type_synonym date = int

record catch_record =
  Date :: date
  Site :: string
  Species :: string
  Catch_Weight_kg :: rat
  Gear_Type :: string

type_synonym dataframe = "catch_record list"

datatype error = ValueError | StreamlitAPIException

subsection \<open>Calendar: the ordinal of a date\<close>

text \<open>
  The ordinal of a day of the Gregorian calendar, as Python's \<^verbatim>\<open>datetime\<close> computes it
  (\<^verbatim>\<open>_ymd2ord\<close>): day 1 is 0001-01-01. It is used to name the dates of the script
  (\<^verbatim>\<open>datetime(2024, 1, 1)\<close>), and only at valid dates: Python refuses a month outside 1 to 12
  and a day the month does not have.
\<close>

definition is_leap :: "int \<Rightarrow> bool" where
  "is_leap y = (y mod 4 = 0 \<and> (y mod 100 \<noteq> 0 \<or> y mod 400 = 0))"

definition days_before_year :: "int \<Rightarrow> int" where
  "days_before_year year =
     (let y = year - 1 in y * 365 + y div 4 - y div 100 + y div 400)"

definition days_before_month :: "int \<Rightarrow> nat \<Rightarrow> int" where
  "days_before_month year month =
     sum_list (take (month - 1) [31, 28, 31, 30, 31, 30, 31, 31, 30, 31, 30, 31])
       + (if month > 2 \<and> is_leap year then 1 else 0)"

definition ymd2ord :: "int \<Rightarrow> nat \<Rightarrow> int \<Rightarrow> date" where
  "ymd2ord year month day = days_before_year year + days_before_month year month + day"

subsection \<open>Data generator (lines 21 to 39)\<close>

text \<open>
  The outcomes of numpy's random draws. \<open>randint g i lo hi\<close> is what the \<open>i\<close>-th call
  \<^verbatim>\<open>np.random.randint(lo, hi)\<close> returns; \<open>choice g c n i\<close> is the position of the \<open>i\<close>-th
  element that the \<open>c\<close>-th call of \<^verbatim>\<open>np.random.choice\<close> picks from a list of \<open>n\<close> elements;
  \<open>uniform g lo hi i\<close> is the \<open>i\<close>-th element of \<^verbatim>\<open>np.random.uniform(lo, hi, n)\<close>.
\<close>

record rng =
  randint :: "nat \<Rightarrow> int \<Rightarrow> int \<Rightarrow> int"
  choice :: "nat \<Rightarrow> nat \<Rightarrow> nat \<Rightarrow> nat"
  uniform :: "rat \<Rightarrow> rat \<Rightarrow> nat \<Rightarrow> rat"

text \<open>
  What numpy documents of the draws: \<^verbatim>\<open>randint\<close> returns an integer of \<open>[lo, hi)\<close>,
  \<^verbatim>\<open>choice\<close> an element of the list, \<^verbatim>\<open>uniform\<close> a number of \<open>[lo, hi)\<close> (the upper bound can
  be reached by rounding, so it is allowed here). The three lists the script chooses from are
  not empty, so a position that \<open>np_choice\<close> reads is inside the list.
\<close>

definition rng_ok :: "rng \<Rightarrow> bool" where
  "rng_ok g =
     ((\<forall>i lo hi. lo < hi \<longrightarrow> lo \<le> randint g i lo hi \<and> randint g i lo hi < hi)
      \<and> (\<forall>c n i. 0 < n \<longrightarrow> choice g c n i < n)
      \<and> (\<forall>lo hi i. lo \<le> hi \<longrightarrow> lo \<le> uniform g lo hi i \<and> uniform g lo hi i \<le> hi))"

definition np_choice :: "rng \<Rightarrow> nat \<Rightarrow> string list \<Rightarrow> nat \<Rightarrow> string list" where
  "np_choice g c xs n = map (\<lambda>i. xs ! choice g c (length xs) i) [0..<n]"

definition np_uniform :: "rng \<Rightarrow> rat \<Rightarrow> rat \<Rightarrow> nat \<Rightarrow> rat list" where
  "np_uniform g lo hi n = map (uniform g lo hi) [0..<n]"

text \<open>
  \<^verbatim>\<open>ndarray.round(2)\<close>: numpy scales by 100, rounds to the nearest integer with ties to the
  even one (\<^verbatim>\<open>rint\<close>), and divides by 100.
\<close>

definition rint :: "rat \<Rightarrow> int" where
  "rint x =
     (let f = \<lfloor>x\<rfloor>; d = x - of_int f
      in if d < 1 / 2 then f else if 1 / 2 < d then f + 1 else if even f then f else f + 1)"

definition round2 :: "rat \<Rightarrow> rat" where
  "round2 x = of_int (rint (x * 100)) / 100"

text \<open>
  \<^verbatim>\<open>pd.DataFrame(data)\<close> on a dict of five columns: the rows are the columns side by side;
  columns of different lengths are refused with a \<^verbatim>\<open>ValueError\<close>.
\<close>

definition DataFrame ::
  "date list \<Rightarrow> string list \<Rightarrow> string list \<Rightarrow> rat list \<Rightarrow> string list \<Rightarrow> error + dataframe" where
  "DataFrame ds ss ps ws gs =
     (if length ss = length ds \<and> length ps = length ds \<and> length ws = length ds
         \<and> length gs = length ds
      then Inr (map (\<lambda>(d, s, p, w, g).
                  \<lparr>Date = d, Site = s, Species = p, Catch_Weight_kg = w, Gear_Type = g\<rparr>)
               (zip ds (zip ss (zip ps (zip ws gs)))))
      else Inl ValueError)"

definition sites :: "string list" where
  "sites = [''Fumba Bay'', ''Nungwi Reef'', ''Kizimkazi Channel'', ''Mnemba Atoll'',
            ''Paje Kelp Beds'']"

definition species :: "string list" where
  "species = [''Tuna'', ''Snapper'', ''Grouper'', ''Mackerel'', ''Sardines'', ''Octopus'',
              ''Lobster'']"

definition gear :: "string list" where
  "gear = [''Longline'', ''Handline'', ''Net'', ''Trap'', ''Spear'']"

text \<open>\<^verbatim>\<open>start_date = datetime(2024, 1, 1)\<close>, the local variable of the generator.\<close>

definition sample_start_date :: date where
  "sample_start_date = ymd2ord 2024 1 1"

text \<open>
  The upper bound \<^verbatim>\<open>365*1.2\<close> of \<^verbatim>\<open>randint\<close>: the float product is 438.0, which numpy takes
  as the integer 438.
\<close>

definition window_days :: int where
  "window_days = \<lfloor>365 * (12 / 10 :: rat)\<rfloor>"

text \<open>
  \<^verbatim>\<open>generate_sample_data(num_records)\<close>. A negative count makes \<^verbatim>\<open>np.random.choice\<close> raise a
  \<^verbatim>\<open>ValueError\<close> (the list comprehension over \<^verbatim>\<open>range(num_records)\<close> before it is empty).
  \<^verbatim>\<open>pd.to_datetime(...).dt.date\<close> drops the time of day, which ordinals do not carry.
  \<^verbatim>\<open>sort_values(by='Date')\<close> is written as the stable \<open>sort_key\<close>; pandas' default kind
  fixes no order among records of one date, and nothing below depends on that order.
\<close>

definition generate_sample_data :: "rng \<Rightarrow> int \<Rightarrow> error + dataframe" where
  "generate_sample_data g num_records =
     (if num_records < 0 then Inl ValueError
      else
        let n = nat num_records;
            dates = map (\<lambda>i. sample_start_date + randint g i 0 window_days) [0..<n]
        in case DataFrame dates
                  (np_choice g 0 sites n)
                  (np_choice g 1 species n)
                  (map round2 (np_uniform g 5 150 n))
                  (np_choice g 2 gear n) of
             Inl e \<Rightarrow> Inl e
           | Inr df \<Rightarrow> Inr (sort_key Date df))"

text \<open>Line 42: \<^verbatim>\<open>df = generate_sample_data()\<close>, with the default of 500 records.\<close>

definition load_data :: "rng \<Rightarrow> error + dataframe" where
  "load_data g = generate_sample_data g 500"

subsection \<open>Filter engine (lines 47 to 81)\<close>

text \<open>\<^verbatim>\<open>df['Date'].min()\<close> and \<^verbatim>\<open>df['Date'].max()\<close>; \<open>None\<close> is the NaN of an empty column.\<close>

fun col_min :: "date list \<Rightarrow> date option" where
  "col_min [] = None"
| "col_min (x # xs) = Some (fold min xs x)"

fun col_max :: "date list \<Rightarrow> date option" where
  "col_max [] = None"
| "col_max (x # xs) = Some (fold max xs x)"

text \<open>
  Lines 60 to 64: both bounds start as the table's minimum and maximum, and are replaced
  only when the widget returned exactly two dates.
\<close>

definition resolve_date_range :: "date \<Rightarrow> date \<Rightarrow> date list \<Rightarrow> date \<times> date" where
  "resolve_date_range min_date max_date date_range =
     (if length date_range = 2 then (date_range ! 0, date_range ! 1)
      else (min_date, max_date))"

text \<open>The element-wise comparisons of a column with a scalar, and \<^verbatim>\<open>Series.isin\<close>.\<close>

definition col_ge :: "date list \<Rightarrow> date \<Rightarrow> bool list" where
  "col_ge c v = map (\<lambda>x. v \<le> x) c"

definition col_le :: "date list \<Rightarrow> date \<Rightarrow> bool list" where
  "col_le c v = map (\<lambda>x. x \<le> v) c"

definition isin :: "string list \<Rightarrow> string list \<Rightarrow> bool list" where
  "isin c vals = map (\<lambda>x. x \<in> set vals) c"

text \<open>The operator \<^verbatim>\<open>&\<close> on two boolean columns of one table.\<close>

definition mask_and :: "bool list \<Rightarrow> bool list \<Rightarrow> bool list" where
  "mask_and a b = map (\<lambda>(p, q). p \<and> q) (zip a b)"

text \<open>\<^verbatim>\<open>df[mask]\<close>: the rows whose mask entry is true, in the order of the table.\<close>

definition select_rows :: "'a list \<Rightarrow> bool list \<Rightarrow> 'a list" where
  "select_rows df msk = map fst (filter snd (zip df msk))"

definition filtered_df :: "dataframe \<Rightarrow> date \<Rightarrow> date \<Rightarrow> string list \<Rightarrow> dataframe" where
  "filtered_df df start_date end_date selected_sites =
     select_rows df
       (mask_and
          (mask_and (col_ge (map Date df) start_date) (col_le (map Date df) end_date))
          (isin (map Site df) selected_sites))"

text \<open>
  The contract of the filter engine in the words of the specification: the records whose
  date lies in the closed interval and whose site is one of the selected ones.
\<close>

definition spec_filter :: "dataframe \<Rightarrow> date \<Rightarrow> date \<Rightarrow> string list \<Rightarrow> dataframe" where
  "spec_filter df start_date end_date selected_sites =
     filter (\<lambda>r. start_date \<le> Date r \<and> Date r \<le> end_date \<and> Site r \<in> set selected_sites) df"

subsection \<open>Aggregator (lines 89 to 190)\<close>

text \<open>\<^verbatim>\<open>filtered_df['Catch_Weight_kg'].sum()\<close>; the sum of an empty column is 0.\<close>

definition total_catch :: "dataframe \<Rightarrow> rat" where
  "total_catch fdf = sum_list (map Catch_Weight_kg fdf)"

text \<open>
  \<^verbatim>\<open>Series.mean()\<close>: the sum divided by the number of rows. On an empty column pandas divides
  nothing and returns NaN, which is \<open>None\<close> here.
\<close>

definition mean :: "rat list \<Rightarrow> rat option" where
  "mean ws = (if ws = [] then None else Some (sum_list ws / of_nat (length ws)))"

text \<open>
  \<^verbatim>\<open>fdf.groupby(key)['Catch_Weight_kg'].sum().reset_index()\<close>: one row for each key that
  occurs, the keys in ascending order (\<^verbatim>\<open>sort=True\<close> is the default of \<^verbatim>\<open>groupby\<close>), each
  with the sum of the weights of its records.
\<close>

definition groupby_sum :: "(catch_record \<Rightarrow> 'k::linorder) \<Rightarrow> dataframe \<Rightarrow> ('k \<times> rat) list" where
  "groupby_sum key fdf =
     map (\<lambda>k. (k, sum_list (map Catch_Weight_kg (filter (\<lambda>r. key r = k) fdf))))
       (sort (remdups (map key fdf)))"

text \<open>
  \<^verbatim>\<open>.sort_values(by='Catch_Weight_kg', ascending=False)\<close>. For a descending order pandas
  reverses the rows, sorts them ascending and reverses the result. The sort is written as the
  stable \<open>sort_key\<close>; pandas' default kind (quicksort) fixes no order among equal sums, and
  nothing below depends on that order.
\<close>

definition sort_values_desc :: "('k \<times> rat) list \<Rightarrow> ('k \<times> rat) list" where
  "sort_values_desc rows = rev (sort_key snd (rev rows))"

definition time_series_df :: "dataframe \<Rightarrow> (date \<times> rat) list" where
  "time_series_df fdf = groupby_sum Date fdf"

definition site_catch_df :: "dataframe \<Rightarrow> (string \<times> rat) list" where
  "site_catch_df fdf = sort_values_desc (groupby_sum Site fdf)"

definition gear_catch_df :: "dataframe \<Rightarrow> (string \<times> rat) list" where
  "gear_catch_df fdf = groupby_sum Gear_Type fdf"

definition species_catch_df :: "dataframe \<Rightarrow> (string \<times> rat) list" where
  "species_catch_df fdf = sort_values_desc (groupby_sum Species fdf)"

definition site_species_df :: "dataframe \<Rightarrow> ((string \<times> string) \<times> rat) list" where
  "site_species_df fdf = groupby_sum (\<lambda>r. (Site r, Species r)) fdf"

subsection \<open>The page (lines 44 to 195)\<close>

text \<open>
  What one run of the script shows for a table and the values of the two widgets. Only the
  elements that carry data are kept (the title, headers and separators are constant text):
  the summary line, the three metrics, the warning, the five charts with the table each is
  drawn from, and \<^verbatim>\<open>st.dataframe\<close>.
\<close>

datatype element =
    Summary date date string
  | Metrics rat nat "rat option"
  | Warning
  | Line_chart "(date \<times> rat) list"
  | Bar_site "(string \<times> rat) list"
  | Pie_gear "(string \<times> rat) list"
  | Bar_species "(string \<times> rat) list"
  | Bar_site_species "((string \<times> string) \<times> rat) list"
  | Dataframe dataframe

text \<open>\<^verbatim>\<open>sep.join(xs)\<close>.\<close>

fun join :: "string \<Rightarrow> string list \<Rightarrow> string" where
  "join sep [] = []"
| "join sep [x] = x"
| "join sep (x # y # ys) = x @ sep @ join sep (y # ys)"

text \<open>Line 85: \<^verbatim>\<open>', '.join(selected_sites) if selected_sites else 'None'\<close>.\<close>

definition sites_text :: "string list \<Rightarrow> string" where
  "sites_text selected_sites =
     (if selected_sites \<noteq> [] then join '', '' selected_sites else ''None'')"

text \<open>
  Lines 48 to 64: the bounds used by the filter. An empty table has NaN as its minimum and
  maximum, which the date widget refuses; the script itself always loads 500 records.
\<close>

definition selected_range :: "dataframe \<Rightarrow> date list \<Rightarrow> error + date \<times> date" where
  "selected_range df date_range =
     (case (col_min (map Date df), col_max (map Date df)) of
        (Some min_date, Some max_date) \<Rightarrow> Inr (resolve_date_range min_date max_date date_range)
      | _ \<Rightarrow> Inl StreamlitAPIException)"

text \<open>Lines 89 to 103: the metrics, or the warning.\<close>

definition metrics_view :: "dataframe \<Rightarrow> element list" where
  "metrics_view fdf =
     (if fdf \<noteq> []
      then [Metrics (total_catch fdf) (length fdf) (mean (map Catch_Weight_kg fdf))]
      else [Warning])"

text \<open>Lines 107 to 195: the charts and the filtered table, or the first 100 rows of the whole table.\<close>

definition charts_view :: "dataframe \<Rightarrow> dataframe \<Rightarrow> element list" where
  "charts_view df fdf =
     (if fdf \<noteq> []
      then [Line_chart (time_series_df fdf),
            Bar_site (site_catch_df fdf),
            Pie_gear (gear_catch_df fdf),
            Bar_species (species_catch_df fdf),
            Bar_site_species (site_species_df fdf),
            Dataframe fdf]
      else [Dataframe (take 100 df)])"

definition page :: "dataframe \<Rightarrow> date list \<Rightarrow> string list \<Rightarrow> error + element list" where
  "page df date_range selected_sites =
     (case selected_range df date_range of
        Inl e \<Rightarrow> Inl e
      | Inr (start_date, end_date) \<Rightarrow>
          let fdf = filtered_df df start_date end_date selected_sites
          in Inr (Summary start_date end_date (sites_text selected_sites)
                  # metrics_view fdf @ charts_view df fdf))"

text \<open>An element computed from an aggregate of the filtered table.\<close>

fun is_aggregate :: "element \<Rightarrow> bool" where
  "is_aggregate (Summary s e t) = False"
| "is_aggregate Warning = False"
| "is_aggregate (Dataframe rows) = False"
| "is_aggregate _ = True"

text \<open>
  The degenerate interval in the words of the specification: the supplied endpoint is kept,
  and the table's minimum or maximum stands for the missing one.
\<close>

definition spec_degenerate_interval :: "date \<Rightarrow> date \<Rightarrow> date \<Rightarrow> date \<times> date \<Rightarrow> bool" where
  "spec_degenerate_interval min_date max_date d r = (r = (d, max_date) \<or> r = (min_date, d))"

subsection \<open>Concrete inputs\<close>

text \<open>The three records of the example in the specification's list of testable properties.\<close>

definition example_table :: dataframe where
  "example_table =
     [\<lparr>Date = ymd2ord 2024 1 1, Site = ''Fumba Bay'', Species = ''Tuna'',
        Catch_Weight_kg = 10, Gear_Type = ''Net''\<rparr>,
      \<lparr>Date = ymd2ord 2024 1 2, Site = ''Fumba Bay'', Species = ''Snapper'',
        Catch_Weight_kg = 20, Gear_Type = ''Trap''\<rparr>,
      \<lparr>Date = ymd2ord 2024 2 1, Site = ''Nungwi Reef'', Species = ''Tuna'',
        Catch_Weight_kg = 5, Gear_Type = ''Net''\<rparr>]"

text \<open>
  A random source that keeps the promises of numpy for every call: the day offsets step by
  100 through the window, the choices cycle through their list, and the weights cycle
  through three values (clamped to the bounds of the call) that exercise the rounding.
\<close>

definition example_rng :: rng where
  "example_rng =
     \<lparr>randint = (\<lambda>i lo hi. lo + (435 - int i * 100) mod (hi - lo)),
      choice = (\<lambda>c n i. (i + c) mod n),
      uniform = (\<lambda>lo hi i. max lo (min hi ([12345 / 1000, 77777 / 1000, 149999 / 1000] ! (i mod 3))))\<rparr>"

text \<open>The table that the generator builds from \<open>example_rng\<close> for three records.\<close>

definition example_generated :: dataframe where
  "example_generated =
     [\<lparr>Date = 739121, Site = ''Kizimkazi Channel'', Species = ''Mackerel'',
        Catch_Weight_kg = 150, Gear_Type = ''Spear''\<rparr>,
      \<lparr>Date = 739221, Site = ''Nungwi Reef'', Species = ''Grouper'',
        Catch_Weight_kg = 7778 / 100, Gear_Type = ''Trap''\<rparr>,
      \<lparr>Date = 739321, Site = ''Fumba Bay'', Species = ''Snapper'',
        Catch_Weight_kg = 1234 / 100, Gear_Type = ''Net''\<rparr>]"

subsection \<open>The filter is a filter\<close>

lemma select_rows_map: "select_rows xs (map P xs) = filter P xs"
  by (induction xs) (simp_all add: select_rows_def)

lemma mask_and_map: "mask_and (map P xs) (map Q xs) = map (\<lambda>x. P x \<and> Q x) xs"
  by (induction xs) (simp_all add: mask_and_def)

lemma filtered_df_filter:
  "filtered_df df s e sel =
     filter (\<lambda>r. s \<le> Date r \<and> Date r \<le> e \<and> Site r \<in> set sel) df"
proof -
  have "mask_and
          (mask_and (col_ge (map Date df) s) (col_le (map Date df) e))
          (isin (map Site df) sel)
        = map (\<lambda>r. (s \<le> Date r \<and> Date r \<le> e) \<and> Site r \<in> set sel) df"
    by (simp add: col_ge_def col_le_def isin_def mask_and_map comp_def)
  then show ?thesis
    by (simp add: filtered_df_def select_rows_map conj_assoc)
qed

text \<open>
  C2. For every table, every inclusive interval of dates and every list of selected sites,
  the filter engine returns exactly the subsequence of the records whose date \<open>d\<close> satisfies
  \<open>start \<le> d \<le> end\<close> and whose site is selected: the mask-based code computes the filter of
  the specification, and the result is a subsequence of the table.
\<close>

theorem filtered_df_meets_contract:
  "filtered_df df start_date end_date selected_sites
     = spec_filter df start_date end_date selected_sites
   \<and> subseq (filtered_df df start_date end_date selected_sites) df"
  by (simp add: filtered_df_filter spec_filter_def)

text \<open>
  C7. Filtering is idempotent: filtering an already filtered table with the same bounds and
  the same selected sites returns that table unchanged.
\<close>

theorem filtered_df_idempotent:
  "filtered_df (filtered_df df start_date end_date selected_sites)
       start_date end_date selected_sites
     = filtered_df df start_date end_date selected_sites"
  by (simp add: filtered_df_filter)




text \<open>
  The example of the specification: the interval 2024-01-01 to 2024-01-31 and the site
  Fumba Bay keep the first two of the three records, with a total of 30 and the sums by
  species 20 (Snapper) and 10 (Tuna).
\<close>

lemma spec_example:
  "filtered_df example_table (ymd2ord 2024 1 1) (ymd2ord 2024 1 31) [''Fumba Bay'']
     = take 2 example_table
   \<and> groupby_sum Species (take 2 example_table) = [(''Snapper'', 20), (''Tuna'', 10)]"
  by code_simp

subsection \<open>Grouped sums\<close>









subsection \<open>The generator\<close>

lemma window_days_eq: "window_days = 438"
  by (simp add: window_days_def)

lemma sample_start_date_eq: "sample_start_date = 738886"
  by (simp add: sample_start_date_def ymd2ord_def days_before_year_def
      days_before_month_def is_leap_def)

lemma rint_lower: "of_int a \<le> x \<Longrightarrow> a \<le> rint x"
proof -
  assume "of_int a \<le> x"
  then have "a \<le> \<lfloor>x\<rfloor>" by (simp add: le_floor_iff)
  then show ?thesis by (simp add: rint_def Let_def)
qed

lemma rint_upper: "x \<le> of_int b \<Longrightarrow> rint x \<le> b"
proof -
  assume h: "x \<le> of_int b"
  then have fl: "\<lfloor>x\<rfloor> \<le> b" by (simp add: floor_le_iff)
  show ?thesis
  proof (cases "x = of_int \<lfloor>x\<rfloor>")
    case True
    then have "x - of_int \<lfloor>x\<rfloor> = 0" by simp
    then show ?thesis using fl by (simp add: rint_def Let_def)
  next
    case False
    then have "of_int \<lfloor>x\<rfloor> < x" using of_int_floor_le [of x] by linarith
    with h have "(of_int \<lfloor>x\<rfloor> :: rat) < of_int b" by simp
    then have "\<lfloor>x\<rfloor> < b" by simp
    then show ?thesis by (simp add: rint_def Let_def)
  qed
qed

lemma round2_bounds:
  assumes "5 \<le> u" and "u \<le> 150"
  shows "5 \<le> round2 u \<and> round2 u \<le> 150 \<and> (\<exists>k::int. round2 u = of_int k / 100)"
proof -
  have "of_int 500 \<le> u * 100" using assms by simp
  then have lo: "500 \<le> rint (u * 100)" by (rule rint_lower)
  have "u * 100 \<le> of_int 15000" using assms by simp
  then have hi: "rint (u * 100) \<le> 15000" by (rule rint_upper)
  from lo have "(500::rat) \<le> of_int (rint (u * 100))" by linarith
  moreover from hi have "of_int (rint (u * 100)) \<le> (15000::rat)" by linarith
  ultimately show ?thesis by (auto simp: round2_def)
qed

lemma DataFrame_cols:
  assumes "length ss = length ds" and "length ps = length ds" and "length ws = length ds"
    and "length gs = length ds"
  shows "\<exists>rows. DataFrame ds ss ps ws gs = Inr rows \<and> length rows = length ds
           \<and> map Date rows = ds \<and> map Catch_Weight_kg rows = ws"
  using assms by (auto simp: DataFrame_def intro!: nth_equalityI)

lemma generate_sample_data_rows:
  assumes "0 \<le> N"
  shows "\<exists>rows. generate_sample_data g N = Inr (sort_key Date rows)
           \<and> length rows = nat N
           \<and> map Date rows
               = map (\<lambda>i. sample_start_date + randint g i 0 window_days) [0..<nat N]
           \<and> map Catch_Weight_kg rows = map round2 (np_uniform g 5 150 (nat N))"
proof -
  let ?ds = "map (\<lambda>i. sample_start_date + randint g i 0 window_days) [0..<nat N]"
  obtain rows where
    "DataFrame ?ds (np_choice g 0 sites (nat N)) (np_choice g 1 species (nat N))
       (map round2 (np_uniform g 5 150 (nat N))) (np_choice g 2 gear (nat N)) = Inr rows"
    "length rows = length ?ds" "map Date rows = ?ds"
    "map Catch_Weight_kg rows = map round2 (np_uniform g 5 150 (nat N))"
    using DataFrame_cols [of "np_choice g 0 sites (nat N)" ?ds "np_choice g 1 species (nat N)"
        "map round2 (np_uniform g 5 150 (nat N))" "np_choice g 2 gear (nat N)"]
    by (auto simp: np_choice_def np_uniform_def)
  with assms show ?thesis
    by (intro exI [of _ rows]) (simp add: generate_sample_data_def Let_def)
qed

lemma generate_sample_data_negative:
  "N < 0 \<Longrightarrow> generate_sample_data g N = Inl ValueError"
  by (simp add: generate_sample_data_def)

lemma generated_row_in_range:
  assumes ok: "rng_ok g"
    and dates: "map Date rows
        = map (\<lambda>i. sample_start_date + randint g i 0 window_days) [0..<n]"
    and weights: "map Catch_Weight_kg rows = map round2 (np_uniform g 5 150 n)"
    and r: "r \<in> set rows"
  shows "5 \<le> Catch_Weight_kg r \<and> Catch_Weight_kg r \<le> 150
      \<and> (\<exists>k::int. Catch_Weight_kg r = of_int k / 100)
      \<and> ymd2ord 2024 1 1 \<le> Date r \<and> Date r < ymd2ord 2024 1 1 + 438"
proof -
  have rand: "0 \<le> randint g i 0 438 \<and> randint g i 0 438 < 438" for i
    using ok by (simp add: rng_ok_def)
  have unif: "5 \<le> uniform g 5 150 i \<and> uniform g 5 150 i \<le> 150" for i
    using ok by (simp add: rng_ok_def)
  from r have "Date r \<in> set (map Date rows)" by simp
  then obtain i where "Date r = sample_start_date + randint g i 0 window_days"
    unfolding dates by auto
  then have d: "ymd2ord 2024 1 1 \<le> Date r \<and> Date r < ymd2ord 2024 1 1 + 438"
    using rand [of i] by (simp add: window_days_eq sample_start_date_def)
  from r have "Catch_Weight_kg r \<in> set (map Catch_Weight_kg rows)" by simp
  then obtain j where "Catch_Weight_kg r = round2 (uniform g 5 150 j)"
    unfolding weights np_uniform_def by auto
  then show ?thesis
    using d round2_bounds [of "uniform g 5 150 j"] unif [of j] by simp
qed

lemma example_rng_ok: "rng_ok example_rng"
proof -
  have m: "lo + x mod (hi - lo) < hi" if "lo < hi" for lo hi x :: int
    using pos_mod_bound [of "hi - lo" x] that by linarith
  show ?thesis
    by (auto simp: rng_ok_def example_rng_def m)
qed

lemma generate_example: "generate_sample_data example_rng 3 = Inr example_generated"
  by code_simp

text \<open>
  C4. For every record count \<open>N\<close> the generator returns a table of exactly \<open>N\<close> records; each
  weight lies in \<open>[5, 150]\<close> and is a whole number of hundredths, each date lies in the window
  of 438 days that starts on 2024-01-01, and the table is sorted by date, non-decreasing.
  (A negative \<open>N\<close> is no count: the generator raises \<^verbatim>\<open>ValueError\<close>, lemma
  \<open>generate_sample_data_negative\<close>.)
\<close>

theorem generate_sample_data_ok:
  assumes "rng_ok g" and "0 \<le> N"
  shows "\<exists>df. generate_sample_data g N = Inr df
          \<and> int (length df) = N
          \<and> (\<forall>r\<in>set df. 5 \<le> Catch_Weight_kg r \<and> Catch_Weight_kg r \<le> 150
                \<and> (\<exists>k::int. Catch_Weight_kg r = of_int k / 100)
                \<and> ymd2ord 2024 1 1 \<le> Date r \<and> Date r < ymd2ord 2024 1 1 + 438)
          \<and> sorted (map Date df)"
proof -
  from assms(2) obtain rows where
    gen: "generate_sample_data g N = Inr (sort_key Date rows)" and
    len: "length rows = nat N" and
    dates: "map Date rows
        = map (\<lambda>i. sample_start_date + randint g i 0 window_days) [0..<nat N]" and
    weights: "map Catch_Weight_kg rows = map round2 (np_uniform g 5 150 (nat N))"
    using generate_sample_data_rows by blast
  have "\<forall>r\<in>set (sort_key Date rows).
          5 \<le> Catch_Weight_kg r \<and> Catch_Weight_kg r \<le> 150
          \<and> (\<exists>k::int. Catch_Weight_kg r = of_int k / 100)
          \<and> ymd2ord 2024 1 1 \<le> Date r \<and> Date r < ymd2ord 2024 1 1 + 438"
    using generated_row_in_range [OF assms(1) dates weights] by simp
  moreover have "int (length (sort_key Date rows)) = N"
    using len assms(2) by simp
  moreover have "sorted (map Date (sort_key Date rows))"
    by (rule sorted_sort_key)
  ultimately show ?thesis
    using gen by blast
qed

theorem generate_sample_data_ok_witness:
  "rng_ok example_rng \<and> (0::int) \<le> 3
   \<and> generate_sample_data example_rng 3 = Inr example_generated
   \<and> int (length example_generated) = 3
   \<and> list_all (\<lambda>r. 5 \<le> Catch_Weight_kg r \<and> Catch_Weight_kg r \<le> 150
        \<and> ymd2ord 2024 1 1 \<le> Date r \<and> Date r < ymd2ord 2024 1 1 + 438) example_generated
   \<and> sorted (map Date example_generated)"
  using generate_sample_data_ok [OF example_rng_ok, of 3] generate_example example_rng_ok
  by (auto simp: list_all_iff)

text \<open>
  C10. The filtered table is sorted by date, non-decreasing, for every table the generator
  returns: the generator sorts by date and the mask keeps the order of the rows.
\<close>

theorem filtered_view_sorted:
  assumes "generate_sample_data g N = Inr df"
  shows "sorted (map Date (filtered_df df start_date end_date selected_sites))"
proof -
  from assms have "0 \<le> N"
    by (cases "N < 0") (simp_all add: generate_sample_data_negative)
  then obtain rows where "generate_sample_data g N = Inr (sort_key Date rows)"
    using generate_sample_data_rows by blast
  with assms have "df = sort_key Date rows" by simp
  then have "sorted (map Date df)" by simp
  then show ?thesis
    by (simp add: filtered_df_filter sorted_filter)
qed

theorem filtered_view_sorted_witness:
  "generate_sample_data example_rng 3 = Inr example_generated
   \<and> filtered_df example_generated (ymd2ord 2024 1 1) (ymd2ord 2025 3 13)
        [''Fumba Bay'', ''Kizimkazi Channel''] = [example_generated ! 0, example_generated ! 2]
   \<and> sorted (map Date (filtered_df example_generated (ymd2ord 2024 1 1) (ymd2ord 2025 3 13)
        [''Fumba Bay'', ''Kizimkazi Channel'']))"
proof -
  have "filtered_df example_generated (ymd2ord 2024 1 1) (ymd2ord 2025 3 13)
        [''Fumba Bay'', ''Kizimkazi Channel''] = [example_generated ! 0, example_generated ! 2]"
    by code_simp
  then show ?thesis
    using filtered_view_sorted [OF generate_example, of "ymd2ord 2024 1 1" "ymd2ord 2025 3 13"
        "[''Fumba Bay'', ''Kizimkazi Channel'']"] generate_example
    by simp
qed

subsection \<open>The page\<close>

lemma selected_range_nonempty:
  assumes "df \<noteq> []"
  shows "\<exists>mn mx. col_min (map Date df) = Some mn \<and> col_max (map Date df) = Some mx
           \<and> selected_range df date_range = Inr (resolve_date_range mn mx date_range)"
  using assms by (cases df) (simp_all add: selected_range_def)

lemma col_min_is_Min: "xs \<noteq> [] \<Longrightarrow> col_min xs = Some (Min (set xs))"
  by (cases xs) (simp_all add: Min.set_eq_fold [symmetric])

lemma col_max_is_Max: "xs \<noteq> [] \<Longrightarrow> col_max xs = Some (Max (set xs))"
  by (cases xs) (simp_all add: Max.set_eq_fold [symmetric])

lemma page_empty_result:
  assumes "selected_range df date_range = Inr (s, e)"
    and "filtered_df df s e selected_sites = []"
  shows "page df date_range selected_sites
     = Inr [Summary s e (sites_text selected_sites), Warning, Dataframe (take 100 df)]"
  using assms by (simp add: page_def metrics_view_def charts_view_def)

lemma page_metrics_defined:
  assumes "page df date_range selected_sites = Inr out"
    and "Metrics t n a \<in> set out"
  shows "a \<noteq> None \<and> 0 < n"
  using assms
  by (auto simp: page_def metrics_view_def charts_view_def mean_def Let_def
      split: sum.splits if_splits)

lemma load_data_nonempty:
  assumes "load_data g = Inr df"
  shows "length df = 500"
proof -
  obtain rows where gen: "generate_sample_data g 500 = Inr (sort_key Date rows)"
    and len: "length rows = nat 500"
    using generate_sample_data_rows [of 500 g] by auto
  from assms gen have "df = sort_key Date rows"
    by (simp add: load_data_def)
  with len show ?thesis by simp
qed

text \<open>
  C1 as the specification states it fails: with one endpoint supplied the code does not keep
  it. On the example table (dates from 2024-01-01 to 2024-02-01) the widget value
  \<^verbatim>\<open>(2024-01-02,)\<close> gives the interval from 2024-01-01 to 2024-02-01, which is neither
  \<open>(2024-01-02, max)\<close> nor \<open>(min, 2024-01-02)\<close>.
\<close>

theorem supplied_endpoint_dropped:
  "col_min (map Date example_table) = Some (ymd2ord 2024 1 1)
   \<and> col_max (map Date example_table) = Some (ymd2ord 2024 2 1)
   \<and> resolve_date_range (ymd2ord 2024 1 1) (ymd2ord 2024 2 1) [ymd2ord 2024 1 2]
       = (ymd2ord 2024 1 1, ymd2ord 2024 2 1)
   \<and> \<not> spec_degenerate_interval (ymd2ord 2024 1 1) (ymd2ord 2024 2 1) (ymd2ord 2024 1 2)
         (resolve_date_range (ymd2ord 2024 1 1) (ymd2ord 2024 2 1) [ymd2ord 2024 1 2])"
  by code_simp

text \<open>
  C1, amended. For every date interval with exactly one endpoint supplied, the filter engine
  discards the supplied endpoint and uses the table's minimum date as the start and the
  table's maximum date as the end, and does not fail (the page is rendered for every
  table that has a record).
\<close>

theorem degenerate_interval_uses_table_bounds:
  "resolve_date_range min_date max_date [d] = (min_date, max_date)
   \<and> (df \<noteq> [] \<longrightarrow>
        (\<exists>mn mx out. col_min (map Date df) = Some mn \<and> col_max (map Date df) = Some mx
           \<and> selected_range df [d] = Inr (mn, mx)
           \<and> page df [d] selected_sites = Inr out))"
proof -
  have "resolve_date_range mn mx [d] = (mn, mx)" for mn mx
    by (simp add: resolve_date_range_def)
  moreover have "\<exists>out. page df [d] selected_sites = Inr out"
    if "selected_range df [d] = Inr (mn, mx)" for mn mx
    using that by (simp add: page_def Let_def)
  ultimately show ?thesis
    using selected_range_nonempty [of df "[d]"] by fastforce
qed

theorem degenerate_interval_uses_table_bounds_witness:
  "example_table \<noteq> []
   \<and> resolve_date_range (ymd2ord 2024 1 1) (ymd2ord 2024 2 1) [ymd2ord 2024 1 2]
       = (ymd2ord 2024 1 1, ymd2ord 2024 2 1)
   \<and> selected_range example_table [ymd2ord 2024 1 2] = Inr (ymd2ord 2024 1 1, ymd2ord 2024 2 1)
   \<and> (\<exists>out. page example_table [ymd2ord 2024 1 2] [''Fumba Bay''] = Inr out)"
proof -
  have ne: "example_table \<noteq> []"
    by (simp add: example_table_def)
  have "selected_range example_table [ymd2ord 2024 1 2]
      = Inr (ymd2ord 2024 1 1, ymd2ord 2024 2 1)"
    by code_simp
  then show ?thesis
    using ne degenerate_interval_uses_table_bounds
      [of "ymd2ord 2024 1 1" "ymd2ord 2024 2 1" "ymd2ord 2024 1 2" example_table "[''Fumba Bay'']"]
    by blast
qed

text \<open>
  C5. For every table and every date interval, an empty selection of sites gives the empty
  filtered table (no site stands for all sites), and the page (of a table that has a
  record) shows the warning and the preview of the whole table instead of the metrics and
  the charts.
\<close>

theorem empty_site_selection:
  "filtered_df df start_date end_date [] = []
   \<and> (df \<noteq> [] \<longrightarrow>
        (\<exists>s e. page df date_range []
           = Inr [Summary s e ''None'', Warning, Dataframe (take 100 df)]))"
proof -
  have empty: "filtered_df df s e [] = []" for s e
    by (simp add: filtered_df_filter)
  have "\<exists>s e. page df date_range [] = Inr [Summary s e ''None'', Warning, Dataframe (take 100 df)]"
    if "df \<noteq> []"
  proof -
    from that obtain s e where "selected_range df date_range = Inr (s, e)"
      using selected_range_nonempty [of df date_range] by (metis surj_pair)
    then have "page df date_range []
        = Inr [Summary s e (sites_text []), Warning, Dataframe (take 100 df)]"
      using empty by (rule page_empty_result)
    then show ?thesis by (auto simp: sites_text_def)
  qed
  with empty show ?thesis by blast
qed

theorem empty_site_selection_witness:
  "example_table \<noteq> []
   \<and> filtered_df example_table (ymd2ord 2024 1 1) (ymd2ord 2024 2 1) [] = []
   \<and> page example_table [ymd2ord 2024 1 1, ymd2ord 2024 2 1] []
       = Inr [Summary (ymd2ord 2024 1 1) (ymd2ord 2024 2 1) ''None'', Warning,
              Dataframe example_table]"
proof -
  have ne: "example_table \<noteq> []"
    by (simp add: example_table_def)
  have "page example_table [ymd2ord 2024 1 1, ymd2ord 2024 2 1] []
       = Inr [Summary (ymd2ord 2024 1 1) (ymd2ord 2024 2 1) ''None'', Warning,
              Dataframe example_table]"
    by code_simp
  then show ?thesis
    using ne empty_site_selection [of example_table "ymd2ord 2024 1 1" "ymd2ord 2024 2 1"]
    by simp
qed

text \<open>
  C6. Whenever the filtered table is empty, the page holds no aggregate: it is the summary
  line, the warning and the first 100 rows of the unfiltered table. The mean is never taken
  of zero rows: whenever the page shows the metrics, the mean is defined and the number of
  records is positive.
\<close>

theorem no_aggregation_on_empty_result:
  "(selected_range df date_range = Inr (s, e) \<and> filtered_df df s e selected_sites = [] \<longrightarrow>
      page df date_range selected_sites
        = Inr [Summary s e (sites_text selected_sites), Warning, Dataframe (take 100 df)]
      \<and> \<not> list_ex is_aggregate
           [Summary s e (sites_text selected_sites), Warning, Dataframe (take 100 df)])
   \<and> (page df date_range selected_sites = Inr out \<and> Metrics t n a \<in> set out \<longrightarrow>
        a \<noteq> None \<and> 0 < n)"
  using page_empty_result [of df date_range s e selected_sites]
    page_metrics_defined [of df date_range selected_sites out t n a]
  by simp

theorem no_aggregation_on_empty_result_witness:
  "selected_range example_table [ymd2ord 2024 1 1, ymd2ord 2024 2 1]
     = Inr (ymd2ord 2024 1 1, ymd2ord 2024 2 1)
   \<and> filtered_df example_table (ymd2ord 2024 1 1) (ymd2ord 2024 2 1) [''Mnemba Atoll''] = []
   \<and> page example_table [ymd2ord 2024 1 1, ymd2ord 2024 2 1] [''Mnemba Atoll'']
       = Inr [Summary (ymd2ord 2024 1 1) (ymd2ord 2024 2 1) ''Mnemba Atoll'', Warning,
              Dataframe (take 100 example_table)]
   \<and> Metrics 30 2 (Some 15)
       \<in> set (projr (page example_table [ymd2ord 2024 1 1, ymd2ord 2024 1 31] [''Fumba Bay'']))
   \<and> Some (15::rat) \<noteq> None \<and> (0::nat) < 2"
proof -
  have r: "selected_range example_table [ymd2ord 2024 1 1, ymd2ord 2024 2 1]
     = Inr (ymd2ord 2024 1 1, ymd2ord 2024 2 1)"
    by code_simp
  have f: "filtered_df example_table (ymd2ord 2024 1 1) (ymd2ord 2024 2 1) [''Mnemba Atoll'']
     = []"
    by code_simp
  have t: "sites_text [''Mnemba Atoll''] = ''Mnemba Atoll''"
    by code_simp
  obtain out where
    p: "page example_table [ymd2ord 2024 1 1, ymd2ord 2024 1 31] [''Fumba Bay''] = Inr out"
    and m: "Metrics 30 2 (Some 15) \<in> set out"
  proof
    show "page example_table [ymd2ord 2024 1 1, ymd2ord 2024 1 31] [''Fumba Bay'']
      = Inr [Summary 738886 738916 ''Fumba Bay'', Metrics 30 2 (Some 15),
             Line_chart [(738886, 10), (738887, 20)],
             Bar_site [(''Fumba Bay'', 30)],
             Pie_gear [(''Net'', 10), (''Trap'', 20)],
             Bar_species [(''Snapper'', 20), (''Tuna'', 10)],
             Bar_site_species [((''Fumba Bay'', ''Snapper''), 20), ((''Fumba Bay'', ''Tuna''), 10)],
             Dataframe (take 2 example_table)]"
      by code_simp
  qed simp
  have "Some (15::rat) \<noteq> None \<and> (0::nat) < 2"
    using p m no_aggregation_on_empty_result
      [of example_table "[ymd2ord 2024 1 1, ymd2ord 2024 1 31]" _ _ "[''Fumba Bay'']" out
        30 2 "Some 15"]
    by blast
  then show ?thesis
    using r f t p m no_aggregation_on_empty_result
      [of example_table "[ymd2ord 2024 1 1, ymd2ord 2024 2 1]" "ymd2ord 2024 1 1"
        "ymd2ord 2024 2 1" "[''Mnemba Atoll'']"]
    by simp
qed

end
